theory Spec2Isabelle
  imports Complex_Main "HOL-Library.Char_ord" "HOL-Library.List_Lexorder"
begin

section \<open>Data model\<close>

text \<open>
  The enums of the database schema (the SQL migration) and the rows of its tables.
  A \<open>DECIMAL(15,2)\<close> column and a Prisma \<open>Decimal\<close> are exact decimals, modelled as
  rationals; the bound of 15 digits is not modelled. A JavaScript \<open>number\<close> is modelled
  as a rational too, so rounding of doubles is not modelled. A \<open>Date\<close> is its number of
  milliseconds since the epoch (\<open>getTime()\<close>), an integer. Identifiers are strings;
  the \<open>id\<close> column of a row is the key under which its table holds it.
\<close>

datatype Tier = BASIC | PREMIUM | VIP

datatype Urgency = NORMAL | EMI | MEDICAL

datatype TxStatus =
  CREATED | LOCKED | QUEUED | RESERVED | PENDING_MANUAL | COMPLETED | FAILED | CANCELLED

datatype LedgerType = DEBIT | CREDIT | RESERVE | RELEASE

record Account =
  accountNumber :: string
  balance :: rat
  reservedAmount :: rat
  tier :: Tier
  riskScore :: int

record Transaction =
  fromAccountId :: string
  toAccountId :: string
  amount :: rat
  urgency :: Urgency
  status :: TxStatus
  basePriority :: rat
  lockedUntil :: "int option"
  reservedAt :: "int option"
  completedAt :: "int option"
  failureReason :: "string option"
  createdAt :: int

record LedgerEntry =
  accountId :: string
  transactionId :: string
  entry_type :: LedgerType
  entry_amount :: rat
  balanceAfter :: rat
  description :: string

section \<open>Configuration (config/index.ts)\<close>

text \<open>
  The three values read from the environment are fields of a record; the weight and
  reserve tables are constants of the source.
\<close>

record Config =
  timelockThreshold :: rat
  timelockSeconds :: int
  agingFactor :: rat

definition default_config :: Config where
  "default_config = \<lparr> timelockThreshold = 10000, timelockSeconds = 30, agingFactor = 1 / 10 \<rparr>"

fun urgencyWeights :: "Urgency \<Rightarrow> rat" where
  "urgencyWeights NORMAL = 1"
| "urgencyWeights EMI = 3"
| "urgencyWeights MEDICAL = 5"

fun tierWeights :: "Tier \<Rightarrow> rat" where
  "tierWeights BASIC = 0"
| "tierWeights PREMIUM = 2"
| "tierWeights VIP = 4"

fun tierReserves :: "Tier \<Rightarrow> rat" where
  "tierReserves BASIC = 100"
| "tierReserves PREMIUM = 300"
| "tierReserves VIP = 500"

section \<open>Priority calculator (queue.service.ts)\<close>

definition calculateBasePriority :: "Urgency \<Rightarrow> Tier \<Rightarrow> int \<Rightarrow> rat" where
  "calculateBasePriority u t risk =
     (let urgencyWeight = urgencyWeights u;
          tierWeight = tierWeights t
      in (urgencyWeight * 2) + (tierWeight * (3 / 2)) - (of_int risk * (1 / 2)))"

text \<open>
  \<open>now\<close> is the value of \<open>Date.now()\<close>. \<open>Math.floor\<close> of the quotient by 1000 is the
  floor division of integers.
\<close>

definition calculateEffectivePriority :: "Config \<Rightarrow> int \<Rightarrow> rat \<Rightarrow> int \<Rightarrow> rat" where
  "calculateEffectivePriority cfg now base created =
     (let waitSeconds = (now - created) div 1000
      in base + (of_int waitSeconds * agingFactor cfg))"

section \<open>The ranked-set store (Redis sorted sets)\<close>

text \<open>
  Both ranked sets are Redis sorted sets. A sorted set holds each member once, with a
  score, and keeps its members in ascending order of score; members of equal score are
  in ascending lexicographic order of the member strings. The model is the list of
  (score, member) pairs in that order.
\<close>

type_synonym zset = "(rat \<times> string) list"

definition zset_before :: "rat \<times> string \<Rightarrow> rat \<times> string \<Rightarrow> bool" where
  "zset_before a b = (fst a < fst b \<or> (fst a = fst b \<and> snd a < snd b))"

fun zinsert :: "rat \<times> string \<Rightarrow> zset \<Rightarrow> zset" where
  "zinsert e [] = [e]"
| "zinsert e (x # xs) = (if zset_before e x then e # x # xs else x # zinsert e xs)"

text \<open>\<open>ZADD key score member\<close>: adds the member, or moves it to its new score.\<close>

definition zadd :: "zset \<Rightarrow> rat \<Rightarrow> string \<Rightarrow> zset" where
  "zadd z score member = zinsert (score, member) (filter (\<lambda>e. snd e \<noteq> member) z)"

text \<open>\<open>ZREM key member\<close>: the number of members removed, and the set without it.\<close>

definition zrem :: "zset \<Rightarrow> string \<Rightarrow> nat \<times> zset" where
  "zrem z member =
     (length (filter (\<lambda>e. snd e = member) z), filter (\<lambda>e. snd e \<noteq> member) z)"

text \<open>\<open>ZRANGE key start stop\<close> by rank; a negative index counts from the end.\<close>

definition zrange :: "zset \<Rightarrow> int \<Rightarrow> int \<Rightarrow> zset" where
  "zrange z start stop =
     (let n = int (length z);
          a = (if start < 0 then max 0 (start + n) else start);
          b = (if stop < 0 then stop + n else min stop (n - 1))
      in if b < a \<or> n \<le> a then [] else take (nat (b - a + 1)) (drop (nat a) z))"

section \<open>The state: database tables and Redis keys\<close>

text \<open>
  A table is a map from its primary key to its row. \<open>accountNumberIndex\<close> is the unique
  index on \<open>Account.accountNumber\<close>. \<open>txn_data\<close> holds the hashes \<open>hash:txn:<id>\<close>; a
  hash stores the base priority and the creation time as strings, which the source parses
  back, and the model stores the two values themselves.
\<close>

record State =
  accounts :: "string \<rightharpoonup> Account"
  accountNumberIndex :: "string \<rightharpoonup> string"
  transactions :: "string \<rightharpoonup> Transaction"
  ledger :: "LedgerEntry list"
  priority_queue :: zset
  timelock_heap :: zset
  txn_data :: "string \<rightharpoonup> rat \<times> int"

datatype error =
  SenderNotFound | RecipientNotFound | SameAccount | InsufficientBalance rat
  | UniqueConstraint | RecordNotFound

text \<open>
  An operation that can throw returns \<open>Inl\<close> of the error, together with the state it
  leaves behind. Inside \<open>prisma.$transaction\<close> a throw rolls the database back, and the
  Redis call of those operations comes last, so they leave the state they started from.
\<close>

definition findAccountByNumber :: "State \<Rightarrow> string \<Rightarrow> (string \<times> Account) option" where
  "findAccountByNumber s number =
     (case accountNumberIndex s number of
        None \<Rightarrow> None
      | Some i \<Rightarrow> (case accounts s i of None \<Rightarrow> None | Some a \<Rightarrow> Some (i, a)))"

section \<open>Priority queue (queue.service.ts)\<close>

definition enqueue :: "Config \<Rightarrow> int \<Rightarrow> State \<Rightarrow> string \<Rightarrow> rat \<Rightarrow> int \<Rightarrow> State" where
  "enqueue cfg now s tid base created =
     (let effectivePriority = calculateEffectivePriority cfg now base created;
          score = - effectivePriority
      in s\<lparr> priority_queue := zadd (priority_queue s) score tid,
            txn_data := (txn_data s)(tid \<mapsto> (base, created)) \<rparr>)"

definition dequeue :: "State \<Rightarrow> string \<Rightarrow> State" where
  "dequeue s tid =
     s\<lparr> priority_queue := snd (zrem (priority_queue s) tid),
        txn_data := (txn_data s)(tid := None) \<rparr>"

definition getTop :: "State \<Rightarrow> int \<Rightarrow> (string \<times> rat) list" where
  "getTop s count = map (\<lambda>e. (snd e, fst e)) (zrange (priority_queue s) 0 (count - 1))"

text \<open>
  The loop of \<open>updateAllPriorities\<close> over the members read at its start; a member whose
  hash is missing is skipped. One clock value stands for the \<open>Date.now()\<close> of every
  iteration.
\<close>

fun rerank :: "Config \<Rightarrow> int \<Rightarrow> (string \<rightharpoonup> rat \<times> int) \<Rightarrow> string list \<Rightarrow> zset \<times> nat \<Rightarrow> zset \<times> nat" where
  "rerank cfg now d [] acc = acc"
| "rerank cfg now d (txId # rest) (q, updated) =
     (case d txId of
        None \<Rightarrow> rerank cfg now d rest (q, updated)
      | Some (base, created) \<Rightarrow>
          rerank cfg now d rest
            (zadd q (- calculateEffectivePriority cfg now base created) txId, updated + 1))"

definition updateAllPriorities :: "Config \<Rightarrow> int \<Rightarrow> State \<Rightarrow> nat \<times> State" where
  "updateAllPriorities cfg now s =
     (let members = map snd (zrange (priority_queue s) 0 (- 1));
          r = rerank cfg now (txn_data s) members (priority_queue s, 0)
      in (snd r, s\<lparr> priority_queue := fst r \<rparr>))"

section \<open>Time-lock scheduler (timelock.service.ts)\<close>

definition lockTransaction :: "int \<Rightarrow> State \<Rightarrow> string \<Rightarrow> int \<Rightarrow> (error + int) \<times> State" where
  "lockTransaction now s tid durationSeconds =
     (let unlockTime = now + durationSeconds * 1000;
          score = unlockTime div 1000;
          s1 = s\<lparr> timelock_heap := zadd (timelock_heap s) (of_int score) tid \<rparr>
      in case transactions s1 tid of
           None \<Rightarrow> (Inl RecordNotFound, s1)
         | Some t \<Rightarrow>
             (Inr unlockTime,
              s1\<lparr> transactions := (transactions s1)(tid \<mapsto>
                    t\<lparr> status := LOCKED, lockedUntil := Some unlockTime \<rparr>) \<rparr>))"

definition cancelLocked :: "State \<Rightarrow> string \<Rightarrow> (error + bool) \<times> State" where
  "cancelLocked s tid =
     (let r = zrem (timelock_heap s) tid;
          removed = fst r;
          s1 = s\<lparr> timelock_heap := snd r \<rparr>
      in if removed > 0 then
           (case transactions s1 tid of
              None \<Rightarrow> (Inl RecordNotFound, s1)
            | Some t \<Rightarrow>
                (Inr True,
                 s1\<lparr> transactions := (transactions s1)(tid \<mapsto>
                       t\<lparr> status := CANCELLED \<rparr>) \<rparr>))
         else (Inr False, s1))"

section \<open>Transaction state machine (transaction.service.ts)\<close>

text \<open>
  \<open>newId\<close> is the identifier the database gives the new row and \<open>now\<close> its creation
  time; one clock value stands for every clock read of an operation. An amount is taken
  to have at most two decimals, so storing it in its column does not round it.
\<close>

definition initiateTransfer ::
  "Config \<Rightarrow> int \<Rightarrow> string \<Rightarrow> State \<Rightarrow> string \<Rightarrow> string \<Rightarrow> rat \<Rightarrow> Urgency
     \<Rightarrow> (error + string \<times> Transaction) \<times> State" where
  "initiateTransfer cfg now newId s fromId toAccountNumber amt urg =
     (case accounts s fromId of
        None \<Rightarrow> (Inl SenderNotFound, s)
      | Some fromAccount \<Rightarrow>
         (case findAccountByNumber s toAccountNumber of
            None \<Rightarrow> (Inl RecipientNotFound, s)
          | Some (toId, toAccount) \<Rightarrow>
             if fromId = toId then (Inl SameAccount, s)
             else
               let availableBalance = balance fromAccount - reservedAmount fromAccount;
                   tierReserve = tierReserves (tier fromAccount)
               in if availableBalance - tierReserve < amt
                  then (Inl (InsufficientBalance tierReserve), s)
                  else
                    let base = calculateBasePriority urg (tier fromAccount) (riskScore fromAccount);
                        transaction =
                          \<lparr> fromAccountId = fromId,
                            toAccountId = toId, amount = amt, urgency = urg,
                            status = CREATED, basePriority = base, lockedUntil = None,
                            reservedAt = None, completedAt = None, failureReason = None,
                            createdAt = now \<rparr>
                    in case transactions s newId of
                         Some other \<Rightarrow> (Inl UniqueConstraint, s)
                       | None \<Rightarrow>
                          let s1 = s\<lparr> transactions := (transactions s)(newId \<mapsto> transaction) \<rparr>
                          in if amt > timelockThreshold cfg then
                               (case lockTransaction now s1 newId (timelockSeconds cfg) of
                                  (Inl e, s2) \<Rightarrow> (Inl e, s2)
                                | (Inr unlockTime, s2) \<Rightarrow> (Inr (newId, transaction), s2))
                             else
                               (case transactions s1 newId of
                                  None \<Rightarrow> (Inl RecordNotFound, s1)
                                | Some t \<Rightarrow>
                                   let s2 = s1\<lparr> transactions := (transactions s1)(newId \<mapsto>
                                               t\<lparr> status := QUEUED \<rparr>) \<rparr>
                                   in (Inr (newId, transaction),
                                       enqueue cfg now s2 newId base
                                         (createdAt transaction)))))"

definition reserveFunds :: "int \<Rightarrow> State \<Rightarrow> string \<Rightarrow> bool \<times> State" where
  "reserveFunds now s tid =
     (case transactions s tid of
        None \<Rightarrow> (False, s)
      | Some transaction \<Rightarrow>
         if status transaction \<notin> {QUEUED, PENDING_MANUAL} then (False, s)
         else
           (case accounts s (fromAccountId transaction) of
              None \<Rightarrow> (False, s)
            | Some fromAccount \<Rightarrow>
               let availableBalance = balance fromAccount - reservedAmount fromAccount;
                   tierReserve = tierReserves (tier fromAccount)
               in if availableBalance - tierReserve < amount transaction then
                    (False,
                     s\<lparr> transactions := (transactions s)(tid \<mapsto>
                          transaction\<lparr> status := FAILED,
                            failureReason :=
                              Some ''Insufficient balance (Minimum balance requirement)'' \<rparr>) \<rparr>)
                  else
                    (True,
                     s\<lparr> accounts := (accounts s)(fromAccountId transaction \<mapsto>
                          fromAccount\<lparr> reservedAmount :=
                            reservedAmount fromAccount + amount transaction \<rparr>),
                        ledger := ledger s @
                          [\<lparr> accountId = fromAccountId transaction, transactionId = tid,
                             entry_type = RESERVE, entry_amount = amount transaction,
                             balanceAfter = balance fromAccount,
                             description =
                               ''Reserved for transfer to '' @ toAccountId transaction \<rparr>],
                        transactions := (transactions s)(tid \<mapsto>
                          transaction\<lparr> status := RESERVED, reservedAt := Some now \<rparr>) \<rparr>)))"

definition finalize :: "int \<Rightarrow> State \<Rightarrow> string \<Rightarrow> (error + bool) \<times> State" where
  "finalize now s tid =
     (case transactions s tid of
        None \<Rightarrow> (Inr False, s)
      | Some transaction \<Rightarrow>
         if status transaction \<noteq> RESERVED then (Inr False, s)
         else
           (case accounts s (fromAccountId transaction) of
              None \<Rightarrow> (Inl RecordNotFound, s)
            | Some a \<Rightarrow>
               let fromAccount = a\<lparr> balance := balance a - amount transaction,
                                     reservedAmount := reservedAmount a - amount transaction \<rparr>;
                   accounts1 = (accounts s)(fromAccountId transaction \<mapsto> fromAccount)
               in case accounts1 (toAccountId transaction) of
                    None \<Rightarrow> (Inl RecordNotFound, s)
                  | Some b \<Rightarrow>
                     let toAccount = b\<lparr> balance := balance b + amount transaction \<rparr>;
                         accounts2 = accounts1(toAccountId transaction \<mapsto> toAccount);
                         s1 = s\<lparr> accounts := accounts2,
                                 ledger := ledger s @
                                   [\<lparr> accountId = fromAccountId transaction, transactionId = tid,
                                      entry_type = DEBIT, entry_amount = amount transaction,
                                      balanceAfter = balance fromAccount,
                                      description =
                                        ''Transfer to '' @ toAccountId transaction \<rparr>,
                                    \<lparr> accountId = toAccountId transaction, transactionId = tid,
                                      entry_type = CREDIT, entry_amount = amount transaction,
                                      balanceAfter = balance toAccount,
                                      description =
                                        ''Transfer from '' @ fromAccountId transaction \<rparr>],
                                 transactions := (transactions s)(tid \<mapsto>
                                   transaction\<lparr> status := COMPLETED,
                                     completedAt := Some now \<rparr>) \<rparr>
                     in (Inr True, dequeue s1 tid)))"

definition rollback :: "State \<Rightarrow> string \<Rightarrow> string \<Rightarrow> (error + bool) \<times> State" where
  "rollback s tid reason =
     (case transactions s tid of
        None \<Rightarrow> (Inr False, s)
      | Some transaction \<Rightarrow>
         (case (if status transaction = RESERVED then
                  (case accounts s (fromAccountId transaction) of
                     None \<Rightarrow> Inl RecordNotFound
                   | Some a \<Rightarrow>
                      let fromAccount =
                            a\<lparr> reservedAmount := reservedAmount a - amount transaction \<rparr>
                      in Inr (s\<lparr> accounts := (accounts s)(fromAccountId transaction \<mapsto> fromAccount),
                                ledger := ledger s @
                                  [\<lparr> accountId = fromAccountId transaction, transactionId = tid,
                                     entry_type = RELEASE, entry_amount = amount transaction,
                                     balanceAfter = balance fromAccount,
                                     description = ''Released: '' @ reason \<rparr>] \<rparr>))
                else Inr s) of
            Inl e \<Rightarrow> (Inl e, s)
          | Inr s1 \<Rightarrow>
             let s2 = s1\<lparr> transactions := (transactions s1)(tid \<mapsto>
                         transaction\<lparr> status := CANCELLED, failureReason := Some reason \<rparr>) \<rparr>
             in (Inr True, dequeue s2 tid)))"

definition completeManual :: "int \<Rightarrow> State \<Rightarrow> string \<Rightarrow> (error + bool) \<times> State" where
  "completeManual now s tid =
     (case transactions s tid of
        None \<Rightarrow> (Inr False, s)
      | Some transaction \<Rightarrow>
         if status transaction \<in> {QUEUED, PENDING_MANUAL} then
           (case reserveFunds now s tid of
              (False, s1) \<Rightarrow> (Inr False, s1)
            | (True, s1) \<Rightarrow> finalize now s1 tid)
         else finalize now s tid)"

section \<open>The cancel endpoints (customer.controller.ts, admin.controller.ts)\<close>

text \<open>
  A response is its status code with the message of its body; a caught exception is
  answered with status 500. \<open>userId\<close> is the authenticated account. The notifications
  sent to sockets are not modelled.
\<close>

datatype response =
  Status200 string | Status400 string | Status403 string | Status404 string | Status500 error

definition customerCancel :: "State \<Rightarrow> string \<Rightarrow> string \<Rightarrow> response \<times> State" where
  "customerCancel s tid userId =
     (case transactions s tid of
        None \<Rightarrow> (Status404 ''Transaction not found'', s)
      | Some transaction \<Rightarrow>
         if fromAccountId transaction \<noteq> userId
         then (Status403 ''You can only cancel your own transactions'', s)
         else if status transaction \<noteq> LOCKED
         then (Status400 ''Only time-locked transactions can be cancelled'', s)
         else
           (case cancelLocked s tid of
              (Inl e, s1) \<Rightarrow> (Status500 e, s1)
            | (Inr cancelled, s1) \<Rightarrow>
               (case accounts s1 (fromAccountId transaction) of
                  None \<Rightarrow> (Status500 RecordNotFound, s1)
                | Some a \<Rightarrow>
                   (Status200 ''Time-locked transaction cancelled successfully'',
                    s1\<lparr> accounts := (accounts s1)(fromAccountId transaction \<mapsto>
                          a\<lparr> reservedAmount := reservedAmount a - amount transaction \<rparr>) \<rparr>))))"

text \<open>\<open>reason || 'Cancelled by admin'\<close>: a missing or empty reason gives the default.\<close>

definition reason_or_default :: "string option \<Rightarrow> string" where
  "reason_or_default reason =
     (case reason of None \<Rightarrow> ''Cancelled by admin''
      | Some r \<Rightarrow> if r = [] then ''Cancelled by admin'' else r)"

definition adminCancel :: "State \<Rightarrow> string \<Rightarrow> string option \<Rightarrow> response \<times> State" where
  "adminCancel s tid reason =
     (case rollback s tid (reason_or_default reason) of
        (Inl e, s1) \<Rightarrow> (Status500 e, s1)
      | (Inr False, s1) \<Rightarrow> (Status400 ''Failed to cancel transaction'', s1)
      | (Inr True, s1) \<Rightarrow> (Status200 ''Transaction cancelled'', s1))"

section \<open>Example states\<close>

text \<open>
  Two Basic accounts, and the states reached from them by the operations above: two
  transfers of 10000 (the threshold itself) requested half a second apart, the first of
  them reserved and then finalized, and one transfer of 15000, which is time-locked.
\<close>

definition example_sender :: Account where
  "example_sender =
     \<lparr> accountNumber = ''1001'', balance = 20000, reservedAmount = 0, tier = BASIC,
       riskScore = 0 \<rparr>"

definition example_recipient :: Account where
  "example_recipient =
     \<lparr> accountNumber = ''1002'', balance = 1000, reservedAmount = 0, tier = BASIC,
       riskScore = 0 \<rparr>"

definition example_state :: State where
  "example_state =
     \<lparr> accounts = [''x'' \<mapsto> example_sender, ''y'' \<mapsto> example_recipient],
       accountNumberIndex = [''1001'' \<mapsto> ''x'', ''1002'' \<mapsto> ''y''],
       transactions = Map.empty, ledger = [], priority_queue = [], timelock_heap = [],
       txn_data = Map.empty \<rparr>"

definition example_queued1 :: State where
  "example_queued1 =
     snd (initiateTransfer default_config 0 ''tx-b'' example_state ''x'' ''1002'' 10000 NORMAL)"

definition example_queued2 :: State where
  "example_queued2 =
     snd (initiateTransfer default_config 500 ''tx-a'' example_queued1 ''x'' ''1002'' 10000 NORMAL)"

definition example_reserved :: State where
  "example_reserved = snd (reserveFunds 1000 example_queued2 ''tx-b'')"

definition example_completed :: State where
  "example_completed = snd (finalize 2000 example_reserved ''tx-b'')"

definition example_locked :: State where
  "example_locked =
     snd (initiateTransfer default_config 0 ''tx-c'' example_state ''x'' ''1002'' 15000 NORMAL)"

definition example_tx :: "rat \<Rightarrow> int \<Rightarrow> Transaction" where
  "example_tx amt created =
     \<lparr> fromAccountId = ''x'', toAccountId = ''y'', amount = amt, urgency = NORMAL,
       status = CREATED, basePriority = 2, lockedUntil = None, reservedAt = None,
       completedAt = None, failureReason = None, createdAt = created \<rparr>"

lemmas example_defs =
  example_sender_def example_recipient_def example_state_def example_queued1_def
  example_queued2_def example_reserved_def example_completed_def example_locked_def
  example_tx_def default_config_def

lemmas operation_defs =
  initiateTransfer_def findAccountByNumber_def lockTransaction_def cancelLocked_def
  reserveFunds_def finalize_def rollback_def completeManual_def customerCancel_def
  adminCancel_def reason_or_default_def enqueue_def dequeue_def getTop_def
  updateAllPriorities_def zadd_def zrem_def zrange_def zset_before_def
  calculateBasePriority_def calculateEffectivePriority_def Let_def

section \<open>Properties of the priority calculator\<close>

text \<open>
  C9. The base priority is \<open>urgencyWeight * 2.0 + tierWeight * 1.5 - risk * 0.5\<close> with
  the weight tables Normal 1, EMI 3, Medical 5 and Basic 0, Premium 2, VIP 4. It grows
  with the urgency weight and with the tier weight, and falls as the risk score grows.
\<close>

theorem calculateBasePriority_formula_monotone:
  "calculateBasePriority u t r = urgencyWeights u * 2 + tierWeights t * (3 / 2) - of_int r * (1 / 2)
   \<and> map urgencyWeights [NORMAL, EMI, MEDICAL] = [1, 3, 5]
   \<and> map tierWeights [BASIC, PREMIUM, VIP] = [0, 2, 4]
   \<and> (urgencyWeights u \<le> urgencyWeights u' \<longrightarrow>
        calculateBasePriority u t r \<le> calculateBasePriority u' t r)
   \<and> (urgencyWeights u < urgencyWeights u' \<longrightarrow>
        calculateBasePriority u t r < calculateBasePriority u' t r)
   \<and> (tierWeights t \<le> tierWeights t' \<longrightarrow>
        calculateBasePriority u t r \<le> calculateBasePriority u t' r)
   \<and> (tierWeights t < tierWeights t' \<longrightarrow>
        calculateBasePriority u t r < calculateBasePriority u t' r)
   \<and> (r \<le> r' \<longrightarrow> calculateBasePriority u t r' \<le> calculateBasePriority u t r)
   \<and> (r < r' \<longrightarrow> calculateBasePriority u t r' < calculateBasePriority u t r)"
  by (simp add: calculateBasePriority_def)

theorem calculateBasePriority_formula_monotone_witness:
  "calculateBasePriority NORMAL BASIC 4 = 0
   \<and> urgencyWeights NORMAL < urgencyWeights EMI
   \<and> calculateBasePriority NORMAL BASIC 4 < calculateBasePriority EMI BASIC 4
   \<and> tierWeights BASIC < tierWeights VIP
   \<and> calculateBasePriority NORMAL BASIC 4 < calculateBasePriority NORMAL VIP 4
   \<and> (4::int) < 9
   \<and> calculateBasePriority NORMAL BASIC 9 < calculateBasePriority NORMAL BASIC 4"
  using calculateBasePriority_formula_monotone [of NORMAL BASIC 4 EMI VIP 9]
  by simp





section \<open>The order of a ranked set\<close>












section \<open>Facts about the example states\<close>

lemma example_queued2_tx_b:
  "transactions example_queued2 ''tx-b'' = Some ((example_tx 10000 0)\<lparr> status := QUEUED \<rparr>)"
  by (simp add: example_defs operation_defs)

lemma example_queued2_sender: "accounts example_queued2 ''x'' = Some example_sender"
  by (simp add: example_defs operation_defs)

lemma example_reserved_tx_a:
  "transactions example_reserved ''tx-a'' = Some ((example_tx 10000 500)\<lparr> status := QUEUED \<rparr>)"
  by (simp add: example_defs operation_defs)

lemma example_reserved_tx_b:
  "transactions example_reserved ''tx-b'' =
     Some ((example_tx 10000 0)\<lparr> status := RESERVED, reservedAt := Some 1000 \<rparr>)"
  by (simp add: example_defs operation_defs)

lemma example_reserved_sender:
  "accounts example_reserved ''x'' = Some (example_sender\<lparr> reservedAmount := 10000 \<rparr>)"
  by (simp add: example_defs operation_defs)

lemma example_reserved_recipient: "accounts example_reserved ''y'' = Some example_recipient"
  by (simp add: example_defs operation_defs)


lemma example_finalize:
  "finalize 2000 example_reserved ''tx-b'' = (Inr True, example_completed)"
proof -
  have "fst (finalize 2000 example_reserved ''tx-b'') = Inr True"
    by (simp add: finalize_def example_reserved_tx_b example_reserved_sender
        example_reserved_recipient example_tx_def)
  then show ?thesis
    by (simp add: example_completed_def prod_eq_iff)
qed

lemma example_completed_tx_b:
  "transactions example_completed ''tx-b'' =
     Some ((example_tx 10000 0)\<lparr> status := COMPLETED, reservedAt := Some 1000,
       completedAt := Some 2000 \<rparr>)"
  by (simp add: example_defs operation_defs)

lemma example_completed_balances:
  "map_option balance (accounts example_completed ''x'') = Some 10000
   \<and> map_option reservedAmount (accounts example_completed ''x'') = Some 0
   \<and> map_option balance (accounts example_completed ''y'') = Some 11000"
  by (simp add: example_defs operation_defs)

lemma example_locked_tx_c:
  "transactions example_locked ''tx-c'' =
     Some ((example_tx 15000 0)\<lparr> status := LOCKED, lockedUntil := Some 30000 \<rparr>)"
  by (simp add: example_defs operation_defs)

section \<open>Reservation\<close>

text \<open>
  C1. For a transaction in status QUEUED or PENDING_MANUAL whose source account exists,
  \<open>reserveFunds\<close> compares \<open>balance - reservedAmount - tierReserves tier\<close> of the source
  account with the amount. If it is less than the amount, the transaction becomes FAILED
  with the reason "Insufficient balance (Minimum balance requirement)", the operation
  returns false, and no account and no ledger entry changes. Otherwise the operation
  returns true, the source account's reservedAmount grows by exactly the amount (nothing
  else changes in the accounts), one RESERVE ledger entry is appended, and the transaction
  becomes RESERVED with its reservation time.
\<close>

theorem reserveFunds_check_and_reserve:
  assumes "transactions s tid = Some t"
    and "status t = QUEUED \<or> status t = PENDING_MANUAL"
    and "accounts s (fromAccountId t) = Some a"
  shows "(balance a - reservedAmount a - tierReserves (tier a) < amount t \<longrightarrow>
           fst (reserveFunds now s tid) = False
           \<and> accounts (snd (reserveFunds now s tid)) = accounts s
           \<and> ledger (snd (reserveFunds now s tid)) = ledger s
           \<and> transactions (snd (reserveFunds now s tid)) =
               (transactions s)(tid \<mapsto> t\<lparr> status := FAILED,
                 failureReason := Some ''Insufficient balance (Minimum balance requirement)'' \<rparr>))
       \<and> (amount t \<le> balance a - reservedAmount a - tierReserves (tier a) \<longrightarrow>
           fst (reserveFunds now s tid) = True
           \<and> accounts (snd (reserveFunds now s tid)) =
               (accounts s)(fromAccountId t \<mapsto> a\<lparr> reservedAmount := reservedAmount a + amount t \<rparr>)
           \<and> (\<exists>e. ledger (snd (reserveFunds now s tid)) = ledger s @ [e]
                \<and> entry_type e = RESERVE \<and> accountId e = fromAccountId t
                \<and> transactionId e = tid \<and> entry_amount e = amount t)
           \<and> transactions (snd (reserveFunds now s tid)) =
               (transactions s)(tid \<mapsto> t\<lparr> status := RESERVED, reservedAt := Some now \<rparr>))"
  using assms by (auto simp: reserveFunds_def Let_def)

theorem reserveFunds_check_and_reserve_witness:
  "fst (reserveFunds 1000 example_queued2 ''tx-b'') = True
   \<and> accounts (snd (reserveFunds 1000 example_queued2 ''tx-b'')) =
       (accounts example_queued2)(''x'' \<mapsto> example_sender\<lparr> reservedAmount := 10000 \<rparr>)
   \<and> transactions (snd (reserveFunds 1000 example_queued2 ''tx-b'')) =
       (transactions example_queued2)(''tx-b'' \<mapsto>
          (example_tx 10000 0)\<lparr> status := RESERVED, reservedAt := Some 1000 \<rparr>)
   \<and> fst (reserveFunds 1500 example_reserved ''tx-a'') = False
   \<and> accounts (snd (reserveFunds 1500 example_reserved ''tx-a'')) = accounts example_reserved
   \<and> ledger (snd (reserveFunds 1500 example_reserved ''tx-a'')) = ledger example_reserved
   \<and> transactions (snd (reserveFunds 1500 example_reserved ''tx-a'')) =
       (transactions example_reserved)(''tx-a'' \<mapsto>
          (example_tx 10000 500)\<lparr> status := FAILED,
            failureReason := Some ''Insufficient balance (Minimum balance requirement)'' \<rparr>)"
proof -
  let ?b = "(example_tx 10000 0)\<lparr> status := QUEUED \<rparr>"
  let ?a = "(example_tx 10000 500)\<lparr> status := QUEUED \<rparr>"
  have b2: "status ?b = QUEUED \<or> status ?b = PENDING_MANUAL"
    by simp
  have b3: "accounts example_queued2 (fromAccountId ?b) = Some example_sender"
    by (simp add: example_tx_def example_queued2_sender)
  have a2: "status ?a = QUEUED \<or> status ?a = PENDING_MANUAL"
    by simp
  have a3: "accounts example_reserved (fromAccountId ?a)
      = Some (example_sender\<lparr> reservedAmount := 10000 \<rparr>)"
    by (simp add: example_tx_def example_reserved_sender)
  note ok = reserveFunds_check_and_reserve [OF example_queued2_tx_b b2 b3, of 1000]
  note ko = reserveFunds_check_and_reserve [OF example_reserved_tx_a a2 a3, of 1500]
  show ?thesis
    using ok ko by (simp add: example_tx_def example_sender_def)
qed

section \<open>Finalization\<close>



text \<open>
  C5. When the transaction's status is not RESERVED, \<open>finalize\<close> returns false and the
  whole state (accounts, ledger, transactions, queues) is as before. In particular,
  after a \<open>finalize\<close> that returned true, a second \<open>finalize\<close> of the same transaction
  returns false and changes nothing, so the source account is not debited twice.
\<close>

theorem finalize_not_reserved_no_change:
  "(transactions s tid = Some t \<and> status t \<noteq> RESERVED \<longrightarrow>
      finalize now s tid = (Inr False, s))
   \<and> (finalize now s tid = (Inr True, s') \<longrightarrow> finalize now' s' tid = (Inr False, s'))"
  by (auto simp: finalize_def Let_def dequeue_def split: option.splits if_splits)

theorem finalize_not_reserved_no_change_witness:
  "status ((example_tx 10000 0)\<lparr> status := COMPLETED, reservedAt := Some 1000,
       completedAt := Some 2000 \<rparr>) \<noteq> RESERVED
   \<and> finalize 3000 example_completed ''tx-b'' = (Inr False, example_completed)
   \<and> finalize 2000 example_reserved ''tx-b'' = (Inr True, example_completed)
   \<and> map_option balance (accounts example_completed ''x'') = Some 10000"
  using finalize_not_reserved_no_change
    [of example_completed "''tx-b''"
      "(example_tx 10000 0)\<lparr> status := COMPLETED, reservedAt := Some 1000,
         completedAt := Some 2000 \<rparr>" 3000]
    finalize_not_reserved_no_change
    [of example_reserved "''tx-b''" _ 2000 example_completed 3000]
    example_completed_tx_b example_finalize example_completed_balances
  by simp

text \<open>
  C10. A \<open>finalize\<close> that returns true, of a transaction between two different accounts,
  moves exactly the amount from the source balance to the destination balance: the sum
  of the two balances is the same before and after.
\<close>

theorem finalize_conserves_money:
  assumes "transactions s tid = Some t"
    and "fromAccountId t \<noteq> toAccountId t"
    and "finalize now s tid = (Inr True, s')"
  shows "\<exists>a b a' b'. accounts s (fromAccountId t) = Some a \<and> accounts s (toAccountId t) = Some b
    \<and> accounts s' (fromAccountId t) = Some a' \<and> accounts s' (toAccountId t) = Some b'
    \<and> balance a' = balance a - amount t \<and> balance b' = balance b + amount t
    \<and> balance a' + balance b' = balance a + balance b"
  using assms
  by (auto simp: finalize_def Let_def dequeue_def split: option.splits if_splits)

theorem finalize_conserves_money_witness:
  "\<exists>a b a' b'. accounts example_reserved ''x'' = Some a \<and> accounts example_reserved ''y'' = Some b
    \<and> accounts example_completed ''x'' = Some a' \<and> accounts example_completed ''y'' = Some b'
    \<and> balance a' = balance a - 10000 \<and> balance b' = balance b + 10000
    \<and> balance a' + balance b' = balance a + balance b"
proof -
  let ?t = "(example_tx 10000 0)\<lparr> status := RESERVED, reservedAt := Some 1000 \<rparr>"
  have h2: "fromAccountId ?t \<noteq> toAccountId ?t"
    by (simp add: example_tx_def)
  show ?thesis
    using finalize_conserves_money [OF example_reserved_tx_b h2 example_finalize]
    by (simp add: example_tx_def)
qed


section \<open>Admission\<close>

lemma initiateTransfer_distinct_accounts:
  "initiateTransfer cfg now newId s fromId toNumber amt urg = (Inr (i, t), s')
     \<Longrightarrow> fromAccountId t \<noteq> toAccountId t"
  by (auto simp: initiateTransfer_def Let_def lockTransaction_def
      split: option.splits if_splits prod.splits sum.splits)





section \<open>Ranking of the Priority Queue\<close>




section \<open>Cancellation\<close>

text \<open>
  C2. The owner cancels the time-locked transfer of 15000 of the example. Nothing was
  reserved for it: the source account's reservedAmount is 0 before the transfer is
  requested and 0 while it is locked. The cancel endpoint answers 200, the id leaves the
  Time-Lock Scheduler's set and the transaction is CANCELLED, but the endpoint also takes
  the amount off reservedAmount, which ends at -15000 and not at 0.
\<close>

theorem customerCancel_locked_reservedAmount:
  "map_option reservedAmount (accounts example_state ''x'') = Some 0
   \<and> map_option status (transactions example_locked ''tx-c'') = Some LOCKED
   \<and> map_option reservedAmount (accounts example_locked ''x'') = Some 0
   \<and> fst (customerCancel example_locked ''tx-c'' ''x'')
       = Status200 ''Time-locked transaction cancelled successfully''
   \<and> timelock_heap (snd (customerCancel example_locked ''tx-c'' ''x'')) = []
   \<and> map_option status (transactions (snd (customerCancel example_locked ''tx-c'' ''x'')) ''tx-c'')
       = Some CANCELLED
   \<and> map_option reservedAmount (accounts (snd (customerCancel example_locked ''tx-c'' ''x'')) ''x'')
       = Some (- 15000)"
  by (simp add: example_defs operation_defs)

lemma customerCancel_locked_decrements:
  assumes "transactions s tid = Some t" and "status t = LOCKED"
    and "accounts s (fromAccountId t) = Some a"
  shows "map_option reservedAmount
           (accounts (snd (customerCancel s tid (fromAccountId t))) (fromAccountId t))
         = Some (reservedAmount a - amount t)"
  using assms
  by (auto simp: customerCancel_def cancelLocked_def Let_def zrem_def split: prod.splits sum.splits)

text \<open>
  C3. The administrator cancels the completed transfer of the example. \<open>rollback\<close> does
  not look at the status unless it is RESERVED: the endpoint answers 200 and the
  transaction, COMPLETED before, is CANCELLED after; accounts and ledger are unchanged,
  so the money stays moved. The owner's endpoint, in contrast, rejects every status but
  LOCKED with status 400 and changes nothing.
\<close>

theorem adminCancel_completed_transaction:
  "map_option status (transactions example_completed ''tx-b'') = Some COMPLETED
   \<and> fst (adminCancel example_completed ''tx-b'' None) = Status200 ''Transaction cancelled''
   \<and> map_option status (transactions (snd (adminCancel example_completed ''tx-b'' None)) ''tx-b'')
       = Some CANCELLED
   \<and> accounts (snd (adminCancel example_completed ''tx-b'' None)) = accounts example_completed
   \<and> ledger (snd (adminCancel example_completed ''tx-b'' None)) = ledger example_completed"
  by (simp add: example_defs operation_defs)

lemma rollback_ignores_terminal_status:
  assumes "transactions s tid = Some t" and "status t \<in> {COMPLETED, FAILED, CANCELLED}"
  shows "fst (rollback s tid reason) = Inr True
    \<and> transactions (snd (rollback s tid reason)) =
        (transactions s)(tid \<mapsto> t\<lparr> status := CANCELLED, failureReason := Some reason \<rparr>)"
  using assms by (auto simp: rollback_def Let_def dequeue_def)

lemma customerCancel_not_locked_rejected:
  assumes "transactions s tid = Some t" and "status t \<noteq> LOCKED"
    and "fromAccountId t = userId"
  shows "customerCancel s tid userId
    = (Status400 ''Only time-locked transactions can be cancelled'', s)"
  using assms by (simp add: customerCancel_def)


end
